theory Spec2Isabelle
  imports Main "HOL-Library.Sublist"
begin

section \<open>The declarations of a translation unit that includes FSM.hpp\<close>

text \<open>
  States and events are C++ types.  A type is identified by its name; what the
  templates of FSM.hpp can observe of a translation unit is
  \<^item> which structs are declared, and from which of the three marker structs each derives;
  \<^item> the explicit specialisations of \<open>FSM_State_Name\<close>;
  \<^item> the explicit and the partial specialisations of \<open>FSM_Transition\<close>.
  None of the primary templates \<open>FSM_State_Name\<close> and \<open>FSM_Transition\<close> is defined, so
  a lookup that finds no specialisation finds an incomplete type.
\<close>

type_synonym tyname = string

datatype base_struct = FSM_State | FSM_Event | FSM_CriticalEvent

datatype compile_error =
    Redefinition tyname
  | Constraint_not_satisfied tyname
  | Static_assert_failed tyname
  | Incomplete_type tyname
  | Undeclared_identifier tyname

record translation_unit =
  struct_base :: "tyname \<rightharpoonup> base_struct"
  FSM_State_Name :: "tyname \<rightharpoonup> string"
  FSM_Transition_explicit :: "tyname \<times> tyname \<rightharpoonup> tyname"
  FSM_Transition_partial :: "tyname \<rightharpoonup> tyname"

text \<open>The translation unit right after \<open>#include "FSM.hpp"\<close>: nothing declared by the user.\<close>

definition FSM_hpp :: translation_unit where
  "FSM_hpp = \<lparr> struct_base = Map.empty, FSM_State_Name = Map.empty,
               FSM_Transition_explicit = Map.empty, FSM_Transition_partial = Map.empty \<rparr>"

text \<open>
  The three concepts are \<open>std::is_base_of_v\<close> tests; \<open>is_base_of\<close> holds of a class and
  itself, and \<open>FSM_CriticalEvent\<close> derives from \<open>FSM_Event\<close>.
\<close>

definition derived_FSM_State :: "translation_unit \<Rightarrow> tyname \<Rightarrow> bool" where
  "derived_FSM_State tu T \<longleftrightarrow>
     T = ''FSM_State'' \<or> struct_base tu T = Some FSM_State"

definition derived_FSM_Event :: "translation_unit \<Rightarrow> tyname \<Rightarrow> bool" where
  "derived_FSM_Event tu T \<longleftrightarrow>
     T = ''FSM_Event'' \<or> T = ''FSM_CriticalEvent'' \<or>
     struct_base tu T = Some FSM_Event \<or> struct_base tu T = Some FSM_CriticalEvent"

definition derived_FSM_CriticalEvent :: "translation_unit \<Rightarrow> tyname \<Rightarrow> bool" where
  "derived_FSM_CriticalEvent tu T \<longleftrightarrow>
     T = ''FSM_CriticalEvent'' \<or> struct_base tu T = Some FSM_CriticalEvent"

section \<open>Resolution of \<open>FSM_Transition<State, Event>::next_state\<close>\<close>

text \<open>
  The primary template constrains both arguments.  For arguments that satisfy the
  constraints, an explicit specialisation (\<open>NEW_TRANSITION\<close>) is the specialisation named,
  whatever partial specialisations exist; otherwise the partial specialisation for the
  event (\<open>NEW_GENERIC_TRANSITION\<close>) is instantiated; otherwise the type is incomplete and
  has no member \<open>next_state\<close>.
\<close>

definition FSM_Transition_next_state ::
    "translation_unit \<Rightarrow> tyname \<Rightarrow> tyname \<Rightarrow> tyname option" where
  "FSM_Transition_next_state tu CurrentState Event =
     (if derived_FSM_State tu CurrentState \<and> derived_FSM_Event tu Event
      then case FSM_Transition_explicit tu (CurrentState, Event) of
             Some nextState \<Rightarrow> Some nextState
           | None \<Rightarrow> FSM_Transition_partial tu Event
      else None)"

definition can_handle_event :: "translation_unit \<Rightarrow> tyname \<Rightarrow> tyname \<Rightarrow> bool" where
  "can_handle_event tu State Event \<longleftrightarrow> FSM_Transition_next_state tu State Event \<noteq> None"

section \<open>The runtime wrapper \<open>FSM<State>\<close>\<close>

text \<open>
  What a call of the wrapper does beyond returning a value is a sequence of calls of the
  hook templates' \<open>exec\<close> and of writes to \<open>std::cout\<close>, in program order.  The
  constructor and \<open>dispatch\<close> are instantiated per state and event type; an
  instantiation that the compiler rejects is the value \<open>Inl err\<close>: there is no program
  in which that call runs.
\<close>

datatype effect =
    On_Enter_exec tyname
  | On_Exit_exec tyname
  | On_Tick_exec tyname
  | Cout string

text \<open>The class has no data member: an object is determined by its template argument.\<close>

datatype FSM = FSM_in (state: tyname)

definition FSM_ctor :: "translation_unit \<Rightarrow> tyname \<Rightarrow> compile_error + FSM \<times> effect list" where
  "FSM_ctor tu State =
     (if \<not> derived_FSM_State tu State then Inl (Constraint_not_satisfied State)
      else Inr (FSM_in State, [On_Enter_exec State]))"

definition print_unhandled_event ::
    "translation_unit \<Rightarrow> tyname \<Rightarrow> tyname \<Rightarrow> compile_error + string" where
  "print_unhandled_event tu State Event =
     (if \<not> derived_FSM_State tu State then Inl (Constraint_not_satisfied State)
      else if \<not> derived_FSM_Event tu Event then Inl (Constraint_not_satisfied Event)
      else case FSM_State_Name tu Event of
             None \<Rightarrow> Inl (Incomplete_type Event)
           | Some event_name \<Rightarrow>
               (case FSM_State_Name tu State of
                  None \<Rightarrow> Inl (Incomplete_type State)
                | Some state_name \<Rightarrow>
                    Inr (''[FSM DEBUG]: Unhandled event <'' @ event_name
                         @ ''> in state <'' @ state_name @ ''>\<newline>'')))"

definition dispatch ::
    "translation_unit \<Rightarrow> FSM \<Rightarrow> tyname \<Rightarrow> compile_error + FSM \<times> effect list" where
  "dispatch tu this Event =
     (if \<not> derived_FSM_Event tu Event then Inl (Constraint_not_satisfied Event)
      else if \<not> can_handle_event tu (state this) Event then
        (case print_unhandled_event tu (state this) Event of
           Inl err \<Rightarrow> Inl err
         | Inr text \<Rightarrow> Inr (this, [Cout text]))
      else
        (case FSM_Transition_next_state tu (state this) Event of
           None \<Rightarrow> Inl (Incomplete_type (state this))
         | Some NextState \<Rightarrow>
             (case FSM_ctor tu NextState of
                Inl err \<Rightarrow> Inl err
              | Inr (next, entered) \<Rightarrow>
                  Inr (next,
                       (if \<not> derived_FSM_CriticalEvent tu Event
                        then [On_Exit_exec (state this)] else []) @ entered))))"

text \<open>
  The caller keeps one FSM value and rebinds it to the result of every dispatch
  (\<open>fsm = processInputEvent(fsm, inputEvent)\<close> in the example's main loop).
\<close>

fun dispatch_all ::
    "translation_unit \<Rightarrow> FSM \<Rightarrow> tyname list \<Rightarrow> compile_error + FSM \<times> effect list" where
  "dispatch_all tu fsm [] = Inr (fsm, [])"
| "dispatch_all tu fsm (Event # events) =
     (case dispatch tu fsm Event of
        Inl err \<Rightarrow> Inl err
      | Inr (fsm', effects) \<Rightarrow>
          (case dispatch_all tu fsm' events of
             Inl err \<Rightarrow> Inl err
           | Inr (fsm'', effects') \<Rightarrow> Inr (fsm'', effects @ effects')))"

section \<open>The declaration macros\<close>

text \<open>
  A macro invocation extends the translation unit, or the compiler rejects it.  A struct
  may be defined once; an explicit or partial specialisation may be defined once; the
  arguments of \<open>FSM_Transition\<close> must satisfy its constraints; the \<open>static_assert\<close> in
  the body of a transition must hold.
\<close>

definition declare_struct ::
    "tyname \<Rightarrow> base_struct \<Rightarrow> translation_unit \<Rightarrow> compile_error + translation_unit" where
  "declare_struct T base tu =
     (if T = ''FSM_State'' \<or> T = ''FSM_Event'' \<or> T = ''FSM_CriticalEvent''
         \<or> struct_base tu T \<noteq> None
      then Inl (Redefinition T)
      else Inr (tu\<lparr> struct_base := (struct_base tu)(T \<mapsto> base) \<rparr>))"

definition specialize_FSM_State_Name ::
    "tyname \<Rightarrow> string \<Rightarrow> translation_unit \<Rightarrow> compile_error + translation_unit" where
  "specialize_FSM_State_Name T name tu =
     (if FSM_State_Name tu T \<noteq> None then Inl (Redefinition T)
      else Inr (tu\<lparr> FSM_State_Name := (FSM_State_Name tu)(T \<mapsto> name) \<rparr>))"

definition NEW_STATE :: "string \<Rightarrow> translation_unit \<Rightarrow> compile_error + translation_unit" where
  "NEW_STATE st tu =
     (case declare_struct (''s_'' @ st) FSM_State tu of
        Inl err \<Rightarrow> Inl err
      | Inr tu' \<Rightarrow> specialize_FSM_State_Name (''s_'' @ st) (''s_'' @ st) tu')"

definition NEW_EVENT :: "string \<Rightarrow> translation_unit \<Rightarrow> compile_error + translation_unit" where
  "NEW_EVENT event tu =
     (case declare_struct (''e_'' @ event) FSM_Event tu of
        Inl err \<Rightarrow> Inl err
      | Inr tu' \<Rightarrow> specialize_FSM_State_Name (''e_'' @ event) (''e_'' @ event) tu')"

definition NEW_CRITICAL_EVENT ::
    "string \<Rightarrow> translation_unit \<Rightarrow> compile_error + translation_unit" where
  "NEW_CRITICAL_EVENT event tu = declare_struct (''ce_'' @ event) FSM_CriticalEvent tu"

definition NEW_TRANSITION ::
    "tyname \<Rightarrow> tyname \<Rightarrow> tyname \<Rightarrow> translation_unit \<Rightarrow> compile_error + translation_unit" where
  "NEW_TRANSITION currentState event nextState tu =
     (if \<not> derived_FSM_State tu currentState then Inl (Constraint_not_satisfied currentState)
      else if \<not> derived_FSM_Event tu event then Inl (Constraint_not_satisfied event)
      else if FSM_Transition_explicit tu (currentState, event) \<noteq> None
        then Inl (Redefinition ''FSM_Transition'')
      else if \<not> derived_FSM_State tu nextState then Inl (Static_assert_failed nextState)
      else Inr (tu\<lparr> FSM_Transition_explicit :=
                       (FSM_Transition_explicit tu)((currentState, event) \<mapsto> nextState) \<rparr>))"

text \<open>
  The event of a generic rule is an argument of a partial specialisation whose other
  argument is a template parameter: the constraints of the primary template are not
  checked at the declaration.  Any declared type is accepted as the event; a rule whose
  event is no event type can never be selected, since no \<open>FSM_Transition<State, event>\<close>
  with such an argument can be named.
\<close>

definition declared :: "translation_unit \<Rightarrow> tyname \<Rightarrow> bool" where
  "declared tu T \<longleftrightarrow>
     T = ''FSM_State'' \<or> T = ''FSM_Event'' \<or> T = ''FSM_CriticalEvent''
     \<or> struct_base tu T \<noteq> None"

definition NEW_GENERIC_TRANSITION ::
    "tyname \<Rightarrow> tyname \<Rightarrow> translation_unit \<Rightarrow> compile_error + translation_unit" where
  "NEW_GENERIC_TRANSITION event nextState tu =
     (if \<not> declared tu event then Inl (Undeclared_identifier event)
      else if FSM_Transition_partial tu event \<noteq> None
        then Inl (Redefinition ''FSM_Transition'')
      else if \<not> derived_FSM_State tu nextState then Inl (Static_assert_failed nextState)
      else Inr (tu\<lparr> FSM_Transition_partial :=
                       (FSM_Transition_partial tu)(event \<mapsto> nextState) \<rparr>))"

text \<open>Declarations are processed in order; the first rejected one ends the compilation.\<close>

fun declarations :: "('s \<Rightarrow> compile_error + 's) list \<Rightarrow> 's \<Rightarrow> compile_error + 's" where
  "declarations [] tu = Inr tu"
| "declarations (d # ds) tu =
     (case d tu of Inl err \<Rightarrow> Inl err | Inr tu' \<Rightarrow> declarations ds tu')"

text \<open>
  What the constraints and the \<open>static_assert\<close>s of the transition macros maintain:
  every exact rule is keyed by a state and an event, and every rule targets a state.
\<close>

definition well_formed :: "translation_unit \<Rightarrow> bool" where
  "well_formed tu \<longleftrightarrow>
     (\<forall>S E T. FSM_Transition_explicit tu (S, E) = Some T \<longrightarrow>
        derived_FSM_State tu S \<and> derived_FSM_Event tu E \<and> derived_FSM_State tu T)
     \<and> (\<forall>E T. FSM_Transition_partial tu E = Some T \<longrightarrow> derived_FSM_State tu T)"

section \<open>The example machine of basic\_fsm.hpp\<close>

definition basic_fsm_hpp :: "compile_error + translation_unit" where
  "basic_fsm_hpp =
     declarations
       [NEW_STATE ''init'', NEW_STATE ''idle'', NEW_STATE ''tx'', NEW_STATE ''rx'',
        NEW_STATE ''error'',
        NEW_EVENT ''ready'', NEW_EVENT ''startTx'', NEW_EVENT ''startRx'', NEW_EVENT ''done'',
        NEW_CRITICAL_EVENT ''error'', NEW_CRITICAL_EVENT ''reset'',
        NEW_TRANSITION ''s_init'' ''e_ready'' ''s_idle'',
        NEW_TRANSITION ''s_idle'' ''e_startTx'' ''s_tx'',
        NEW_TRANSITION ''s_idle'' ''e_startRx'' ''s_rx'',
        NEW_TRANSITION ''s_tx'' ''e_done'' ''s_idle'',
        NEW_TRANSITION ''s_rx'' ''e_done'' ''s_idle'',
        NEW_GENERIC_TRANSITION ''ce_error'' ''s_error'',
        NEW_GENERIC_TRANSITION ''ce_reset'' ''s_init'']
       FSM_hpp"

text \<open>The same translation unit, written out.\<close>

definition basic_fsm :: translation_unit where
  "basic_fsm =
     \<lparr> struct_base = map_of
         [(''ce_reset'', FSM_CriticalEvent), (''ce_error'', FSM_CriticalEvent),
          (''e_done'', FSM_Event), (''e_startRx'', FSM_Event), (''e_startTx'', FSM_Event),
          (''e_ready'', FSM_Event),
          (''s_error'', FSM_State), (''s_rx'', FSM_State), (''s_tx'', FSM_State),
          (''s_idle'', FSM_State), (''s_init'', FSM_State)],
       FSM_State_Name = map_of
         [(''e_done'', ''e_done''), (''e_startRx'', ''e_startRx''),
          (''e_startTx'', ''e_startTx''), (''e_ready'', ''e_ready''),
          (''s_error'', ''s_error''), (''s_rx'', ''s_rx''), (''s_tx'', ''s_tx''),
          (''s_idle'', ''s_idle''), (''s_init'', ''s_init'')],
       FSM_Transition_explicit = map_of
         [((''s_rx'', ''e_done''), ''s_idle''), ((''s_tx'', ''e_done''), ''s_idle''),
          ((''s_idle'', ''e_startRx''), ''s_rx''), ((''s_idle'', ''e_startTx''), ''s_tx''),
          ((''s_init'', ''e_ready''), ''s_idle'')],
       FSM_Transition_partial = map_of
         [(''ce_reset'', ''s_init''), (''ce_error'', ''s_error'')] \<rparr>"

section \<open>Further translation units\<close>

text \<open>
  The example with one more declaration after it:
  \<open>NEW_TRANSITION(s_error, ce_reset, s_error)\<close>, an exact rule for an event that also
  has a generic rule.
\<close>

definition latched_error_fsm :: translation_unit where
  "latched_error_fsm =
     basic_fsm\<lparr> FSM_Transition_explicit :=
       (FSM_Transition_explicit basic_fsm)((''s_error'', ''ce_reset'') \<mapsto> ''s_error'') \<rparr>"

text \<open>
  The example followed by \<open>NEW_CRITICAL_EVENT(halt); NEW_TRANSITION(s_tx, ce_halt, s_error)\<close>:
  a critical event with an exact rule from one state and no generic rule.
\<close>

definition halt_fsm :: translation_unit where
  "halt_fsm =
     basic_fsm\<lparr> struct_base := (struct_base basic_fsm)(''ce_halt'' \<mapsto> FSM_CriticalEvent),
                FSM_Transition_explicit :=
                  (FSM_Transition_explicit basic_fsm)((''s_tx'', ''ce_halt'') \<mapsto> ''s_error'') \<rparr>"

section \<open>The action hooks\<close>

text \<open>
  The body of a hook is caller-written code.  It is modelled as a function on the state
  of the hosting program, of which the framework itself only knows \<open>std::cout\<close>.  The
  primary templates \<open>FSM_On_Enter\<close>, \<open>FSM_On_Exit\<close> and \<open>FSM_On_Tick\<close> have the empty
  body \<open>exec(){}\<close>; the macros \<open>NEW_ON_..._ACTION\<close> specialise them for one state.
\<close>

record world =
  cout :: string

type_synonym 'a code = "'a world_scheme \<Rightarrow> 'a world_scheme"

record 'a hook_table =
  FSM_On_Enter :: "tyname \<rightharpoonup> 'a code"
  FSM_On_Exit :: "tyname \<rightharpoonup> 'a code"
  FSM_On_Tick :: "tyname \<rightharpoonup> 'a code"

definition primary_hooks :: "'a hook_table" where
  "primary_hooks = \<lparr> FSM_On_Enter = Map.empty, FSM_On_Exit = Map.empty,
                     FSM_On_Tick = Map.empty \<rparr>"

definition FSM_On_Enter_exec :: "'a hook_table \<Rightarrow> tyname \<Rightarrow> 'a code" where
  "FSM_On_Enter_exec hooks State w =
     (case FSM_On_Enter hooks State of None \<Rightarrow> w | Some body \<Rightarrow> body w)"

definition FSM_On_Exit_exec :: "'a hook_table \<Rightarrow> tyname \<Rightarrow> 'a code" where
  "FSM_On_Exit_exec hooks State w =
     (case FSM_On_Exit hooks State of None \<Rightarrow> w | Some body \<Rightarrow> body w)"

definition FSM_On_Tick_exec :: "'a hook_table \<Rightarrow> tyname \<Rightarrow> 'a code" where
  "FSM_On_Tick_exec hooks State w =
     (case FSM_On_Tick hooks State of None \<Rightarrow> w | Some body \<Rightarrow> body w)"

definition cout_write :: "string \<Rightarrow> 'a code" where
  "cout_write text w = w\<lparr> cout := cout w @ text \<rparr>"

definition NEW_ON_ENTER_ACTION ::
    "translation_unit \<Rightarrow> tyname \<Rightarrow> 'a code \<Rightarrow> 'a hook_table \<Rightarrow> compile_error + 'a hook_table" where
  "NEW_ON_ENTER_ACTION tu st body hooks =
     (if \<not> derived_FSM_State tu st then Inl (Constraint_not_satisfied st)
      else if FSM_On_Enter hooks st \<noteq> None then Inl (Redefinition ''FSM_On_Enter'')
      else Inr (hooks\<lparr> FSM_On_Enter := (FSM_On_Enter hooks)(st \<mapsto> body) \<rparr>))"

definition NEW_ON_EXIT_ACTION ::
    "translation_unit \<Rightarrow> tyname \<Rightarrow> 'a code \<Rightarrow> 'a hook_table \<Rightarrow> compile_error + 'a hook_table" where
  "NEW_ON_EXIT_ACTION tu st body hooks =
     (if \<not> derived_FSM_State tu st then Inl (Constraint_not_satisfied st)
      else if FSM_On_Exit hooks st \<noteq> None then Inl (Redefinition ''FSM_On_Exit'')
      else Inr (hooks\<lparr> FSM_On_Exit := (FSM_On_Exit hooks)(st \<mapsto> body) \<rparr>))"

definition NEW_ON_TICK_ACTION ::
    "translation_unit \<Rightarrow> tyname \<Rightarrow> 'a code \<Rightarrow> 'a hook_table \<Rightarrow> compile_error + 'a hook_table" where
  "NEW_ON_TICK_ACTION tu st body hooks =
     (if \<not> derived_FSM_State tu st then Inl (Constraint_not_satisfied st)
      else if FSM_On_Tick hooks st \<noteq> None then Inl (Redefinition ''FSM_On_Tick'')
      else Inr (hooks\<lparr> FSM_On_Tick := (FSM_On_Tick hooks)(st \<mapsto> body) \<rparr>))"

text \<open>Running the effects of a constructor or dispatch call, in order.\<close>

fun perform :: "'a hook_table \<Rightarrow> effect \<Rightarrow> 'a code" where
  "perform hooks (On_Enter_exec State) = FSM_On_Enter_exec hooks State"
| "perform hooks (On_Exit_exec State) = FSM_On_Exit_exec hooks State"
| "perform hooks (On_Tick_exec State) = FSM_On_Tick_exec hooks State"
| "perform hooks (Cout text) = cout_write text"

definition perform_all :: "'a hook_table \<Rightarrow> effect list \<Rightarrow> 'a code" where
  "perform_all hooks effects w = fold (perform hooks) effects w"

text \<open>
  The constructor and \<open>dispatch\<close> once more, statement by statement, now acting on the
  state of the hosting program: the exit hook runs first, then the constructor of
  \<open>FSM<NextState>\<close> runs the enter hook; the unhandled branch writes to \<open>std::cout\<close>.
  Whatever the program keeps between two dispatches (a counter a hook increments, the
  text printed so far) is part of that state; the FSM object has no data member.
\<close>

definition FSM_ctor_in_world ::
    "'a hook_table \<Rightarrow> translation_unit \<Rightarrow> tyname \<Rightarrow> 'a world_scheme
       \<Rightarrow> compile_error + FSM \<times> 'a world_scheme" where
  "FSM_ctor_in_world hooks tu State w =
     (if \<not> derived_FSM_State tu State then Inl (Constraint_not_satisfied State)
      else Inr (FSM_in State, FSM_On_Enter_exec hooks State w))"

definition dispatch_in_world ::
    "'a hook_table \<Rightarrow> translation_unit \<Rightarrow> FSM \<Rightarrow> tyname \<Rightarrow> 'a world_scheme
       \<Rightarrow> compile_error + FSM \<times> 'a world_scheme" where
  "dispatch_in_world hooks tu this Event w =
     (if \<not> derived_FSM_Event tu Event then Inl (Constraint_not_satisfied Event)
      else if \<not> can_handle_event tu (state this) Event then
        (case print_unhandled_event tu (state this) Event of
           Inl err \<Rightarrow> Inl err
         | Inr text \<Rightarrow> Inr (this, cout_write text w))
      else
        (case FSM_Transition_next_state tu (state this) Event of
           None \<Rightarrow> Inl (Incomplete_type (state this))
         | Some NextState \<Rightarrow>
             FSM_ctor_in_world hooks tu NextState
               (if \<not> derived_FSM_CriticalEvent tu Event
                then FSM_On_Exit_exec hooks (state this) w else w)))"

fun dispatch_all_in_world ::
    "'a hook_table \<Rightarrow> translation_unit \<Rightarrow> FSM \<Rightarrow> tyname list \<Rightarrow> 'a world_scheme
       \<Rightarrow> compile_error + FSM \<times> 'a world_scheme" where
  "dispatch_all_in_world hooks tu fsm [] w = Inr (fsm, w)"
| "dispatch_all_in_world hooks tu fsm (Event # events) w =
     (case dispatch_in_world hooks tu fsm Event w of
        Inl err \<Rightarrow> Inl err
      | Inr (fsm', w') \<Rightarrow> dispatch_all_in_world hooks tu fsm' events w')"

text \<open>
  A hosting program with a counter besides \<open>std::cout\<close>, and the single action
  \<open>NEW_ON_ENTER_ACTION(s_idle, { ++entered; })\<close>.
\<close>

definition counting_actions :: "nat hook_table" where
  "counting_actions =
     \<lparr> FSM_On_Enter = [''s_idle'' \<mapsto> (\<lambda>w. w\<lparr> world.more := Suc (world.more w) \<rparr>)],
       FSM_On_Exit = Map.empty, FSM_On_Tick = Map.empty \<rparr>"

text \<open>The actions of basic\_fsm.hpp, as declared and written out.\<close>

definition basic_fsm_actions_hpp :: "compile_error + unit hook_table" where
  "basic_fsm_actions_hpp =
     declarations
       [NEW_ON_ENTER_ACTION basic_fsm ''s_init'' (cout_write (''Entering init state\<newline>'')),
        NEW_ON_EXIT_ACTION basic_fsm ''s_init'' (cout_write (''Exiting init state\<newline>'')),
        NEW_ON_ENTER_ACTION basic_fsm ''s_idle'' (cout_write (''Entering idle state\<newline>'')),
        NEW_ON_EXIT_ACTION basic_fsm ''s_idle'' (cout_write (''Exiting idle state\<newline>'')),
        NEW_ON_ENTER_ACTION basic_fsm ''s_tx'' (cout_write (''Entering tx state\<newline>'')),
        NEW_ON_EXIT_ACTION basic_fsm ''s_tx'' (cout_write (''Exiting tx state\<newline>'')),
        NEW_ON_ENTER_ACTION basic_fsm ''s_rx'' (cout_write (''Entering rx state\<newline>'')),
        NEW_ON_EXIT_ACTION basic_fsm ''s_rx'' (cout_write (''Exiting rx state\<newline>'')),
        NEW_ON_ENTER_ACTION basic_fsm ''s_error'' (cout_write (''Entering error state\<newline>'')),
        NEW_ON_EXIT_ACTION basic_fsm ''s_error'' (cout_write (''Exiting error state\<newline>''))]
       primary_hooks"

definition basic_fsm_actions :: "unit hook_table" where
  "basic_fsm_actions =
     \<lparr> FSM_On_Enter = map_of
         [(''s_error'', cout_write (''Entering error state\<newline>'')),
          (''s_rx'', cout_write (''Entering rx state\<newline>'')),
          (''s_tx'', cout_write (''Entering tx state\<newline>'')),
          (''s_idle'', cout_write (''Entering idle state\<newline>'')),
          (''s_init'', cout_write (''Entering init state\<newline>''))],
       FSM_On_Exit = map_of
         [(''s_error'', cout_write (''Exiting error state\<newline>'')),
          (''s_rx'', cout_write (''Exiting rx state\<newline>'')),
          (''s_tx'', cout_write (''Exiting tx state\<newline>'')),
          (''s_idle'', cout_write (''Exiting idle state\<newline>'')),
          (''s_init'', cout_write (''Exiting init state\<newline>''))],
       FSM_On_Tick = Map.empty \<rparr>"

section \<open>Basic facts\<close>

lemmas concept_defs =
  derived_FSM_State_def derived_FSM_Event_def derived_FSM_CriticalEvent_def

lemmas macro_defs =
  NEW_STATE_def NEW_EVENT_def NEW_CRITICAL_EVENT_def NEW_TRANSITION_def
  NEW_GENERIC_TRANSITION_def declare_struct_def specialize_FSM_State_Name_def declared_def

lemma basic_fsm_compiles: "basic_fsm_hpp = Inr basic_fsm"
  unfolding basic_fsm_hpp_def basic_fsm_def FSM_hpp_def
  by (simp add: macro_defs concept_defs)

lemma latched_error_fsm_compiles:
  "NEW_TRANSITION ''s_error'' ''ce_reset'' ''s_error'' basic_fsm = Inr latched_error_fsm"
  by (simp add: NEW_TRANSITION_def concept_defs latched_error_fsm_def basic_fsm_def)

lemma halt_fsm_compiles:
  "declarations [NEW_CRITICAL_EVENT ''halt'', NEW_TRANSITION ''s_tx'' ''ce_halt'' ''s_error'']
     basic_fsm = Inr halt_fsm"
  by (simp add: macro_defs concept_defs halt_fsm_def basic_fsm_def)

lemma critical_is_event: "derived_FSM_CriticalEvent tu E \<Longrightarrow> derived_FSM_Event tu E"
  by (auto simp: concept_defs)

text \<open>What an accepted state or event macro leaves in the translation unit.\<close>

lemma NEW_STATE_registers:
  assumes "NEW_STATE st tu = Inr tu'"
  shows "derived_FSM_State tu' (''s_'' @ st)"
    and "FSM_State_Name tu' (''s_'' @ st) = Some (''s_'' @ st)"
  using assms by (auto simp: macro_defs concept_defs split: if_splits)

lemma NEW_EVENT_registers:
  assumes "NEW_EVENT event tu = Inr tu'"
  shows "derived_FSM_Event tu' (''e_'' @ event)"
    and "FSM_State_Name tu' (''e_'' @ event) = Some (''e_'' @ event)"
  using assms by (auto simp: macro_defs concept_defs split: if_splits)

lemma NEW_CRITICAL_EVENT_registers:
  assumes "NEW_CRITICAL_EVENT event tu = Inr tu'"
  shows "derived_FSM_CriticalEvent tu' (''ce_'' @ event)"
    and "FSM_State_Name tu' = FSM_State_Name tu"
  using assms by (auto simp: macro_defs concept_defs split: if_splits)

text \<open>What an accepted transition macro leaves in the translation unit.\<close>

lemma NEW_TRANSITION_registers:
  assumes "NEW_TRANSITION S E T tu = Inr tu'"
  shows "FSM_Transition_explicit tu' (S, E) = Some T"
    and "derived_FSM_State tu' S" and "derived_FSM_Event tu' E" and "derived_FSM_State tu' T"
    and "FSM_Transition_partial tu' = FSM_Transition_partial tu"
  using assms by (auto simp: NEW_TRANSITION_def concept_defs split: if_splits)

lemma NEW_GENERIC_TRANSITION_registers:
  assumes "NEW_GENERIC_TRANSITION E T tu = Inr tu'"
  shows "FSM_Transition_partial tu' E = Some T"
    and "declared tu' E" and "derived_FSM_State tu' T"
    and "FSM_Transition_explicit tu' = FSM_Transition_explicit tu"
  using assms
  by (auto simp: NEW_GENERIC_TRANSITION_def declared_def concept_defs split: if_splits)

text \<open>A generic rule for a type that is no event is accepted and never selected.\<close>

lemma NEW_GENERIC_TRANSITION_dead_rule:
  "NEW_GENERIC_TRANSITION ''s_tx'' ''s_error'' basic_fsm
     = Inr (basic_fsm\<lparr> FSM_Transition_partial :=
              (FSM_Transition_partial basic_fsm)(''s_tx'' \<mapsto> ''s_error'') \<rparr>)"
  "FSM_Transition_next_state
     (basic_fsm\<lparr> FSM_Transition_partial :=
        (FSM_Transition_partial basic_fsm)(''s_tx'' \<mapsto> ''s_error'') \<rparr>) S ''s_tx'' = None"
  by (simp_all add: NEW_GENERIC_TRANSITION_def declared_def FSM_Transition_next_state_def
      concept_defs basic_fsm_def)

text \<open>Every accepted declaration keeps the translation unit well formed.\<close>

lemma well_formed_FSM_hpp: "well_formed FSM_hpp"
  by (simp add: well_formed_def FSM_hpp_def)

lemma concepts_unchanged:
  "derived_FSM_State (tu\<lparr> FSM_State_Name := names \<rparr>) = derived_FSM_State tu"
  "derived_FSM_Event (tu\<lparr> FSM_State_Name := names \<rparr>) = derived_FSM_Event tu"
  "derived_FSM_State (tu\<lparr> FSM_Transition_explicit := exact \<rparr>) = derived_FSM_State tu"
  "derived_FSM_Event (tu\<lparr> FSM_Transition_explicit := exact \<rparr>) = derived_FSM_Event tu"
  "derived_FSM_State (tu\<lparr> FSM_Transition_partial := generic \<rparr>) = derived_FSM_State tu"
  "derived_FSM_Event (tu\<lparr> FSM_Transition_partial := generic \<rparr>) = derived_FSM_Event tu"
  by (simp_all add: concept_defs fun_eq_iff)

lemma concepts_kept:
  assumes "struct_base tu T = None"
  shows "derived_FSM_State tu X \<Longrightarrow>
           derived_FSM_State (tu\<lparr> struct_base := (struct_base tu)(T \<mapsto> base) \<rparr>) X"
    and "derived_FSM_Event tu X \<Longrightarrow>
           derived_FSM_Event (tu\<lparr> struct_base := (struct_base tu)(T \<mapsto> base) \<rparr>) X"
  using assms by (auto simp: concept_defs)

lemma declare_struct_well_formed:
  assumes "well_formed tu" and "declare_struct T base tu = Inr tu'"
  shows "well_formed tu'"
proof -
  from assms(2) have fresh: "struct_base tu T = None"
    and tu': "tu' = tu\<lparr> struct_base := (struct_base tu)(T \<mapsto> base) \<rparr>"
    by (auto simp: declare_struct_def split: if_splits)
  show ?thesis
    using assms(1) concepts_kept [OF fresh, of _ base]
    unfolding well_formed_def tu' by (simp; blast)
qed

lemma specialize_FSM_State_Name_well_formed:
  assumes "well_formed tu" and "specialize_FSM_State_Name T name tu = Inr tu'"
  shows "well_formed tu'"
  using assms
  by (auto simp: well_formed_def specialize_FSM_State_Name_def concepts_unchanged
      split: if_splits)

lemma NEW_STATE_well_formed:
  assumes "well_formed tu" and "NEW_STATE st tu = Inr tu'"
  shows "well_formed tu'"
  using assms
  by (auto simp: NEW_STATE_def split: sum.splits
      dest: declare_struct_well_formed specialize_FSM_State_Name_well_formed)

lemma NEW_EVENT_well_formed:
  assumes "well_formed tu" and "NEW_EVENT event tu = Inr tu'"
  shows "well_formed tu'"
  using assms
  by (auto simp: NEW_EVENT_def split: sum.splits
      dest: declare_struct_well_formed specialize_FSM_State_Name_well_formed)

lemma NEW_CRITICAL_EVENT_well_formed:
  assumes "well_formed tu" and "NEW_CRITICAL_EVENT event tu = Inr tu'"
  shows "well_formed tu'"
  using assms by (auto simp: NEW_CRITICAL_EVENT_def dest: declare_struct_well_formed)

lemma NEW_TRANSITION_well_formed:
  assumes "well_formed tu" and "NEW_TRANSITION S E T tu = Inr tu'"
  shows "well_formed tu'"
  using assms
  by (auto simp: well_formed_def NEW_TRANSITION_def concepts_unchanged split: if_splits)

lemma NEW_GENERIC_TRANSITION_well_formed:
  assumes "well_formed tu" and "NEW_GENERIC_TRANSITION E T tu = Inr tu'"
  shows "well_formed tu'"
  using assms
  by (auto simp: well_formed_def NEW_GENERIC_TRANSITION_def concepts_unchanged
      split: if_splits)

lemma well_formed_target:
  assumes "well_formed tu" and "FSM_Transition_next_state tu S E = Some T"
  shows "derived_FSM_State tu T"
  using assms
  by (auto simp: well_formed_def FSM_Transition_next_state_def
      split: if_splits option.splits)

text \<open>Resolution by the explicit specialisation, and by the partial one in its absence.\<close>

lemma next_state_explicit:
  assumes "derived_FSM_State tu S" and "derived_FSM_Event tu E"
    and "FSM_Transition_explicit tu (S, E) = Some T"
  shows "FSM_Transition_next_state tu S E = Some T"
  using assms by (simp add: FSM_Transition_next_state_def)

lemma next_state_partial:
  assumes "derived_FSM_State tu S" and "derived_FSM_Event tu E"
    and "FSM_Transition_explicit tu (S, E) = None"
  shows "FSM_Transition_next_state tu S E = FSM_Transition_partial tu E"
  using assms by (simp add: FSM_Transition_next_state_def)

text \<open>The two branches of \<open>dispatch\<close>.\<close>

lemma dispatch_resolved:
  assumes "FSM_Transition_next_state tu S E = Some T" and "derived_FSM_State tu T"
  shows "dispatch tu (FSM_in S) E =
           Inr (FSM_in T,
                (if \<not> derived_FSM_CriticalEvent tu E then [On_Exit_exec S] else [])
                @ [On_Enter_exec T])"
proof -
  from assms(1) have ev: "derived_FSM_Event tu E"
    by (auto simp: FSM_Transition_next_state_def split: if_splits)
  from assms(1) have "can_handle_event tu S E"
    by (simp add: can_handle_event_def)
  with ev assms show ?thesis
    by (simp add: dispatch_def FSM_ctor_def)
qed

lemma dispatch_unresolved:
  assumes "derived_FSM_State tu S" and "derived_FSM_Event tu E"
    and "FSM_Transition_next_state tu S E = None"
    and "FSM_State_Name tu E = Some event_name" and "FSM_State_Name tu S = Some state_name"
  shows "dispatch tu (FSM_in S) E =
           Inr (FSM_in S, [Cout (''[FSM DEBUG]: Unhandled event <'' @ event_name
                                 @ ''> in state <'' @ state_name @ ''>\<newline>'')])"
  using assms by (simp add: dispatch_def can_handle_event_def print_unhandled_event_def)

lemma dispatch_effects:
  assumes "dispatch tu fsm E = Inr (fsm', effects)"
  shows "(\<exists>text. effects = [Cout text])
         \<or> (\<exists>T. effects = [On_Enter_exec T])
         \<or> (\<exists>T. effects = [On_Exit_exec (state fsm), On_Enter_exec T])"
  using assms
  by (auto simp: dispatch_def FSM_ctor_def split: if_splits sum.splits option.splits)

lemmas hook_defs =
  NEW_ON_ENTER_ACTION_def NEW_ON_EXIT_ACTION_def NEW_ON_TICK_ACTION_def
  FSM_On_Enter_exec_def FSM_On_Exit_exec_def FSM_On_Tick_exec_def

lemma basic_fsm_actions_compile: "basic_fsm_actions_hpp = Inr basic_fsm_actions"
  unfolding basic_fsm_actions_hpp_def basic_fsm_actions_def primary_hooks_def
  by (simp add: hook_defs concept_defs basic_fsm_def)

text \<open>
  What running the effects of a dispatch does to the hosting program does not depend on
  the tick hooks that are declared.
\<close>

lemma perform_all_tick_irrelevant:
  assumes "dispatch tu fsm E = Inr (fsm', effects)"
  shows "perform_all (hooks\<lparr> FSM_On_Tick := ticks \<rparr>) effects w = perform_all hooks effects w"
  using dispatch_effects [OF assms]
  by (auto simp: perform_all_def hook_defs cout_write_def)

text \<open>
  Running the calls on the state of the hosting program is running the effects of the
  calls, in order.
\<close>

lemma FSM_ctor_in_world_trace:
  "FSM_ctor_in_world hooks tu State w =
     (case FSM_ctor tu State of
        Inl err \<Rightarrow> Inl err
      | Inr (fsm, effects) \<Rightarrow> Inr (fsm, perform_all hooks effects w))"
  by (simp add: FSM_ctor_in_world_def FSM_ctor_def perform_all_def)

lemma dispatch_in_world_trace:
  "dispatch_in_world hooks tu fsm Event w =
     (case dispatch tu fsm Event of
        Inl err \<Rightarrow> Inl err
      | Inr (fsm', effects) \<Rightarrow> Inr (fsm', perform_all hooks effects w))"
  by (auto simp: dispatch_in_world_def dispatch_def FSM_ctor_in_world_def FSM_ctor_def
      perform_all_def split: sum.splits option.splits)

lemma dispatch_in_world_result:
  "map_sum id fst (dispatch_in_world hooks tu fsm Event w)
     = map_sum id fst (dispatch tu fsm Event)"
  by (simp add: dispatch_in_world_trace split: sum.splits prod.splits)

lemma dispatch_all_in_world_result:
  "map_sum id fst (dispatch_all_in_world hooks tu fsm events w)
     = map_sum id fst (dispatch_all tu fsm events)"
proof (induction events arbitrary: fsm w)
  case Nil
  show ?case by simp
next
  case (Cons Event events)
  show ?case
  proof (cases "dispatch tu fsm Event")
    case (Inl err)
    then show ?thesis by (simp add: dispatch_in_world_trace)
  next
    case (Inr r)
    obtain fsm' effects where r: "r = (fsm', effects)" by (cases r)
    from Cons.IH [of fsm' "perform_all hooks effects w"] Inr r show ?thesis
      by (simp add: dispatch_in_world_trace split: sum.splits)
  qed
qed

text \<open>
  The reference scenario: from \<open>s_init\<close>, the events \<open>e_ready\<close>, \<open>e_startTx\<close>,
  \<open>ce_reset\<close>, \<open>e_done\<close>, with the calls made and the text written.
\<close>

lemma basic_fsm_scenario:
  "dispatch_all basic_fsm (FSM_in ''s_init'') [''e_ready'', ''e_startTx'', ''ce_reset'', ''e_done'']
     = Inr (FSM_in ''s_init'',
            [On_Exit_exec ''s_init'', On_Enter_exec ''s_idle'',
             On_Exit_exec ''s_idle'', On_Enter_exec ''s_tx'',
             On_Enter_exec ''s_init'',
             Cout ''[FSM DEBUG]: Unhandled event <e_done> in state <s_init>\<newline>''])"
  by (simp add: dispatch_def can_handle_event_def FSM_Transition_next_state_def
      FSM_ctor_def print_unhandled_event_def concept_defs basic_fsm_def)

lemma basic_fsm_scenario_output:
  "cout (perform_all basic_fsm_actions
           [On_Exit_exec ''s_init'', On_Enter_exec ''s_idle'',
            On_Exit_exec ''s_idle'', On_Enter_exec ''s_tx'',
            On_Enter_exec ''s_init'',
            Cout ''[FSM DEBUG]: Unhandled event <e_done> in state <s_init>\<newline>'']
           \<lparr> cout = [] \<rparr>)
     = ''Exiting init state\<newline>Entering idle state\<newline>Exiting idle state\<newline>''
       @ ''Entering tx state\<newline>Entering init state\<newline>''
       @ ''[FSM DEBUG]: Unhandled event <e_done> in state <s_init>\<newline>''"
  by (simp add: perform_all_def hook_defs basic_fsm_actions_def cout_write_def)

lemma dispatch_all_no_tick:
  assumes "dispatch_all tu fsm events = Inr (fsm', effects)"
  shows "On_Tick_exec T \<notin> set effects"
  using assms
proof (induction events arbitrary: fsm effects)
  case Nil
  then show ?case by simp
next
  case (Cons Event events)
  from Cons.prems obtain fsm1 effects1 effects2
    where first: "dispatch tu fsm Event = Inr (fsm1, effects1)"
      and rest: "dispatch_all tu fsm1 events = Inr (fsm', effects2)"
      and all: "effects = effects1 @ effects2"
    by (auto split: sum.splits)
  from dispatch_effects [OF first] have "On_Tick_exec T \<notin> set effects1" by auto
  with Cons.IH [OF rest] all show ?case by simp
qed

lemma sublist_mid: "sublist xs (a @ xs @ b)"
  by (auto simp: sublist_def)

lemma basic_fsm_states:
  "derived_FSM_State basic_fsm ''s_init''" "derived_FSM_State basic_fsm ''s_idle''"
  "derived_FSM_State basic_fsm ''s_tx''" "derived_FSM_State basic_fsm ''s_rx''"
  "derived_FSM_State basic_fsm ''s_error''"
  by (simp_all add: derived_FSM_State_def basic_fsm_def)

lemma basic_fsm_events:
  "derived_FSM_Event basic_fsm ''e_ready''" "derived_FSM_Event basic_fsm ''e_startTx''"
  "derived_FSM_Event basic_fsm ''e_startRx''" "derived_FSM_Event basic_fsm ''e_done''"
  "derived_FSM_Event basic_fsm ''ce_error''" "derived_FSM_Event basic_fsm ''ce_reset''"
  by (simp_all add: derived_FSM_Event_def basic_fsm_def)

lemma basic_fsm_critical:
  "derived_FSM_CriticalEvent basic_fsm ''ce_error''"
  "derived_FSM_CriticalEvent basic_fsm ''ce_reset''"
  "\<not> derived_FSM_CriticalEvent basic_fsm ''e_ready''"
  "\<not> derived_FSM_CriticalEvent basic_fsm ''e_startTx''"
  "\<not> derived_FSM_CriticalEvent basic_fsm ''e_startRx''"
  "\<not> derived_FSM_CriticalEvent basic_fsm ''e_done''"
  by (simp_all add: derived_FSM_CriticalEvent_def basic_fsm_def)

section \<open>Construction\<close>

text \<open>
  C7.  Constructing an FSM in an initial state \<open>S\<close> calls the enter hook of \<open>S\<close> exactly
  once and calls no other hook: the effects of the constructor are the single call
  \<open>FSM_On_Enter<S>::exec()\<close>, and the object constructed is in state \<open>S\<close>.
\<close>

theorem FSM_ctor_enters_once:
  assumes "derived_FSM_State tu S"
  shows "FSM_ctor tu S = Inr (FSM_in S, [On_Enter_exec S])"
  using assms by (simp add: FSM_ctor_def)

theorem FSM_ctor_enters_once_witness:
  "derived_FSM_State basic_fsm ''s_init''
   \<and> FSM_ctor basic_fsm ''s_init'' = Inr (FSM_in ''s_init'', [On_Enter_exec ''s_init''])"
  using FSM_ctor_enters_once [of basic_fsm "''s_init''"]
  by (simp add: derived_FSM_State_def basic_fsm_def)

section \<open>Resolved transitions\<close>

text \<open>
  C4.  For every state \<open>S\<close> and non-critical event \<open>E\<close> with a registered exact rule
  \<open>(S, E) \<rightarrow> T\<close>, dispatch from \<open>S\<close> with \<open>E\<close> returns an FSM in exactly \<open>T\<close>, and calls
  the exit hook of \<open>S\<close> and then the enter hook of \<open>T\<close>, in that order, and nothing else.
\<close>

theorem dispatch_exact_rule:
  assumes "derived_FSM_State tu S" and "derived_FSM_Event tu E"
    and "\<not> derived_FSM_CriticalEvent tu E"
    and "FSM_Transition_explicit tu (S, E) = Some T" and "derived_FSM_State tu T"
  shows "dispatch tu (FSM_in S) E = Inr (FSM_in T, [On_Exit_exec S, On_Enter_exec T])"
proof -
  have "FSM_Transition_next_state tu S E = Some T"
    using assms(1,2,4) by (rule next_state_explicit)
  from dispatch_resolved [OF this assms(5)] assms(3) show ?thesis by simp
qed

theorem dispatch_exact_rule_witness:
  "derived_FSM_State basic_fsm ''s_init'' \<and> derived_FSM_Event basic_fsm ''e_ready''
   \<and> \<not> derived_FSM_CriticalEvent basic_fsm ''e_ready''
   \<and> FSM_Transition_explicit basic_fsm (''s_init'', ''e_ready'') = Some ''s_idle''
   \<and> derived_FSM_State basic_fsm ''s_idle''
   \<and> dispatch basic_fsm (FSM_in ''s_init'') ''e_ready''
       = Inr (FSM_in ''s_idle'', [On_Exit_exec ''s_init'', On_Enter_exec ''s_idle''])"
proof -
  have rule: "FSM_Transition_explicit basic_fsm (''s_init'', ''e_ready'') = Some ''s_idle''"
    by (simp add: basic_fsm_def)
  from dispatch_exact_rule [OF basic_fsm_states(1) basic_fsm_events(1) basic_fsm_critical(3)
      rule basic_fsm_states(2)]
  show ?thesis
    using rule basic_fsm_states(1,2) basic_fsm_events(1) basic_fsm_critical(3) by simp
qed

text \<open>
  C5.  For every event \<open>E\<close> with a registered wildcard rule \<open>E \<rightarrow> T\<close> and every state \<open>S\<close>
  with no exact rule for \<open>E\<close>, dispatch of \<open>E\<close> from \<open>S\<close> returns an FSM in \<open>T\<close>, with the
  hook sequence of an exact-rule transition: exit of \<open>S\<close> then enter of \<open>T\<close> when \<open>E\<close> is
  not critical, enter of \<open>T\<close> alone when \<open>E\<close> is critical.
\<close>

theorem dispatch_wildcard_rule:
  assumes "derived_FSM_State tu S" and "derived_FSM_Event tu E"
    and "FSM_Transition_partial tu E = Some T" and "derived_FSM_State tu T"
    and "FSM_Transition_explicit tu (S, E) = None"
  shows "dispatch tu (FSM_in S) E =
           Inr (FSM_in T,
                if derived_FSM_CriticalEvent tu E then [On_Enter_exec T]
                else [On_Exit_exec S, On_Enter_exec T])"
proof -
  have "FSM_Transition_next_state tu S E = Some T"
    using next_state_partial [OF assms(1,2,5)] assms(3) by simp
  from dispatch_resolved [OF this assms(4)] show ?thesis by simp
qed

theorem dispatch_wildcard_rule_witness:
  "derived_FSM_State basic_fsm ''s_idle'' \<and> derived_FSM_Event basic_fsm ''ce_error''
   \<and> FSM_Transition_partial basic_fsm ''ce_error'' = Some ''s_error''
   \<and> derived_FSM_State basic_fsm ''s_error''
   \<and> FSM_Transition_explicit basic_fsm (''s_idle'', ''ce_error'') = None
   \<and> dispatch basic_fsm (FSM_in ''s_idle'') ''ce_error''
       = Inr (FSM_in ''s_error'', [On_Enter_exec ''s_error''])"
proof -
  have wild: "FSM_Transition_partial basic_fsm ''ce_error'' = Some ''s_error''"
    and none: "FSM_Transition_explicit basic_fsm (''s_idle'', ''ce_error'') = None"
    by (simp_all add: basic_fsm_def)
  from dispatch_wildcard_rule [OF basic_fsm_states(2) basic_fsm_events(5) wild
      basic_fsm_states(5) none]
  show ?thesis
    using wild none basic_fsm_states(2,5) basic_fsm_events(5) basic_fsm_critical(1) by simp
qed

text \<open>
  C2.  For every state \<open>S\<close> and event \<open>E\<close> for which both an exact rule \<open>(S, E) \<rightarrow> T1\<close> and
  a wildcard rule \<open>E \<rightarrow> T2\<close> are registered, dispatch of \<open>E\<close> from \<open>S\<close> returns an FSM in
  the exact rule's target \<open>T1\<close>; it is in the wildcard rule's target only if the two
  targets are the same state.
\<close>

theorem dispatch_exact_before_wildcard:
  assumes "derived_FSM_State tu S" and "derived_FSM_Event tu E"
    and "FSM_Transition_explicit tu (S, E) = Some T1" and "derived_FSM_State tu T1"
    and "FSM_Transition_partial tu E = Some T2"
  shows "dispatch tu (FSM_in S) E =
           Inr (FSM_in T1,
                if derived_FSM_CriticalEvent tu E then [On_Enter_exec T1]
                else [On_Exit_exec S, On_Enter_exec T1])
         \<and> (T1 \<noteq> T2 \<longrightarrow> (\<forall>effects. dispatch tu (FSM_in S) E \<noteq> Inr (FSM_in T2, effects)))"
proof -
  have "FSM_Transition_next_state tu S E = Some T1"
    using assms(1,2,3) by (rule next_state_explicit)
  from dispatch_resolved [OF this assms(4)] show ?thesis by simp
qed

theorem dispatch_exact_before_wildcard_witness:
  "derived_FSM_State latched_error_fsm ''s_error''
   \<and> derived_FSM_Event latched_error_fsm ''ce_reset''
   \<and> FSM_Transition_explicit latched_error_fsm (''s_error'', ''ce_reset'') = Some ''s_error''
   \<and> FSM_Transition_partial latched_error_fsm ''ce_reset'' = Some ''s_init''
   \<and> dispatch latched_error_fsm (FSM_in ''s_error'') ''ce_reset''
       = Inr (FSM_in ''s_error'', [On_Enter_exec ''s_error''])
   \<and> (\<forall>effects. dispatch latched_error_fsm (FSM_in ''s_error'') ''ce_reset''
                   \<noteq> Inr (FSM_in ''s_init'', effects))"
proof -
  have st: "derived_FSM_State latched_error_fsm ''s_error''"
    and ev: "derived_FSM_Event latched_error_fsm ''ce_reset''"
    and crit: "derived_FSM_CriticalEvent latched_error_fsm ''ce_reset''"
    and exact: "FSM_Transition_explicit latched_error_fsm (''s_error'', ''ce_reset'')
                  = Some ''s_error''"
    and wild: "FSM_Transition_partial latched_error_fsm ''ce_reset'' = Some ''s_init''"
    by (simp_all add: latched_error_fsm_def basic_fsm_def concept_defs)
  from dispatch_exact_before_wildcard [OF st ev exact st wild]
  show ?thesis using st ev crit exact wild by simp
qed

text \<open>
  C1.  For every state \<open>S\<close> and critical event \<open>E\<close> such that the transition table resolves
  \<open>(S, E)\<close> to a target state \<open>T\<close>, dispatch from \<open>S\<close> with \<open>E\<close> calls the enter hook of
  \<open>T\<close> and does not call the exit hook of \<open>S\<close>: the only effect is the call of
  \<open>FSM_On_Enter<T>::exec()\<close>.  This holds whatever a dispatch of a non-critical event
  from \<open>S\<close> does.
\<close>

theorem dispatch_critical_skips_exit:
  assumes "derived_FSM_State tu S" and "derived_FSM_CriticalEvent tu E"
    and "FSM_Transition_next_state tu S E = Some T" and "derived_FSM_State tu T"
  shows "\<exists>effects. dispatch tu (FSM_in S) E = Inr (FSM_in T, effects)
                   \<and> effects = [On_Enter_exec T]
                   \<and> On_Exit_exec S \<notin> set effects"
  using dispatch_resolved [OF assms(3,4)] assms(2) by simp

theorem dispatch_critical_skips_exit_witness:
  "derived_FSM_State basic_fsm ''s_tx'' \<and> derived_FSM_CriticalEvent basic_fsm ''ce_reset''
   \<and> FSM_Transition_next_state basic_fsm ''s_tx'' ''ce_reset'' = Some ''s_init''
   \<and> derived_FSM_State basic_fsm ''s_init''
   \<and> dispatch basic_fsm (FSM_in ''s_tx'') ''ce_reset''
       = Inr (FSM_in ''s_init'', [On_Enter_exec ''s_init''])
   \<and> dispatch basic_fsm (FSM_in ''s_tx'') ''e_done''
       = Inr (FSM_in ''s_idle'', [On_Exit_exec ''s_tx'', On_Enter_exec ''s_idle''])"
proof -
  have res: "FSM_Transition_next_state basic_fsm ''s_tx'' ''ce_reset'' = Some ''s_init''"
    by (simp add: FSM_Transition_next_state_def concept_defs basic_fsm_def)
  have res': "FSM_Transition_next_state basic_fsm ''s_tx'' ''e_done'' = Some ''s_idle''"
    by (simp add: FSM_Transition_next_state_def concept_defs basic_fsm_def)
  from dispatch_critical_skips_exit [OF basic_fsm_states(3) basic_fsm_critical(2) res
      basic_fsm_states(1)]
  show ?thesis
    using res basic_fsm_states(1,3) basic_fsm_critical(2)
      dispatch_resolved [OF res' basic_fsm_states(2)] basic_fsm_critical(6)
    by simp
qed

text \<open>
  C10.  A wildcard rule \<open>E \<rightarrow> T\<close> also applies when the current state already is \<open>T\<close>
  (and \<open>T\<close> has no exact rule for \<open>E\<close>): dispatching \<open>E\<close> from \<open>T\<close> returns an FSM in \<open>T\<close>
  again, and the enter hook of \<open>T\<close> is called on that dispatch, after the exit hook of
  \<open>T\<close> when \<open>E\<close> is not critical.  In the example, dispatching \<open>ce_error\<close> in \<open>s_error\<close>
  calls the enter hook of \<open>s_error\<close>, which prints its line once more.
\<close>

theorem dispatch_wildcard_self_transition:
  assumes "derived_FSM_State tu T" and "derived_FSM_Event tu E"
    and "FSM_Transition_partial tu E = Some T"
    and "FSM_Transition_explicit tu (T, E) = None"
  shows "dispatch tu (FSM_in T) E =
           Inr (FSM_in T,
                if derived_FSM_CriticalEvent tu E then [On_Enter_exec T]
                else [On_Exit_exec T, On_Enter_exec T])"
proof -
  have "FSM_Transition_next_state tu T E = Some T"
    using next_state_partial [OF assms(1,2,4)] assms(3) by simp
  from dispatch_resolved [OF this assms(1)] show ?thesis by simp
qed

theorem dispatch_wildcard_self_transition_witness:
  "derived_FSM_State basic_fsm ''s_error'' \<and> derived_FSM_Event basic_fsm ''ce_error''
   \<and> FSM_Transition_partial basic_fsm ''ce_error'' = Some ''s_error''
   \<and> FSM_Transition_explicit basic_fsm (''s_error'', ''ce_error'') = None
   \<and> dispatch basic_fsm (FSM_in ''s_error'') ''ce_error''
       = Inr (FSM_in ''s_error'', [On_Enter_exec ''s_error''])
   \<and> cout (perform_all basic_fsm_actions [On_Enter_exec ''s_error''] \<lparr> cout = [] \<rparr>)
       = ''Entering error state\<newline>''"
proof -
  have wild: "FSM_Transition_partial basic_fsm ''ce_error'' = Some ''s_error''"
    and none: "FSM_Transition_explicit basic_fsm (''s_error'', ''ce_error'') = None"
    by (simp_all add: basic_fsm_def)
  have out: "cout (perform_all basic_fsm_actions [On_Enter_exec ''s_error''] \<lparr> cout = [] \<rparr>)
       = ''Entering error state\<newline>''"
    by (simp add: perform_all_def hook_defs basic_fsm_actions_def cout_write_def)
  from dispatch_wildcard_self_transition [OF basic_fsm_states(5) basic_fsm_events(5) wild none]
  show ?thesis
    using wild none out basic_fsm_states(5) basic_fsm_events(5) basic_fsm_critical(1) by simp
qed

section \<open>Unhandled events\<close>

text \<open>
  For a state and an event that both have an \<open>FSM_State_Name\<close> specialisation and have no
  matching exact or generic rule, dispatch returns the FSM in the same state, calls no
  hook, and writes exactly one diagnostic, which contains the name of the event and the
  name of the state.
\<close>

lemma dispatch_unhandled_named:
  assumes "derived_FSM_State tu S" and "derived_FSM_Event tu E"
    and "FSM_Transition_explicit tu (S, E) = None" and "FSM_Transition_partial tu E = None"
    and "FSM_State_Name tu E = Some event_name" and "FSM_State_Name tu S = Some state_name"
  shows "\<exists>text. dispatch tu (FSM_in S) E = Inr (FSM_in S, [Cout text])
               \<and> text = ''[FSM DEBUG]: Unhandled event <'' @ event_name
                          @ ''> in state <'' @ state_name @ ''>\<newline>''
               \<and> sublist event_name text \<and> sublist state_name text"
proof -
  have "FSM_Transition_next_state tu S E = None"
    using next_state_partial [OF assms(1,2,3)] assms(4) by simp
  from dispatch_unresolved [OF assms(1,2) this assms(5,6)]
  have "dispatch tu (FSM_in S) E =
          Inr (FSM_in S, [Cout (''[FSM DEBUG]: Unhandled event <'' @ event_name
                                @ ''> in state <'' @ state_name @ ''>\<newline>'')])" .
  moreover have "sublist event_name (''[FSM DEBUG]: Unhandled event <'' @ event_name
                                @ ''> in state <'' @ state_name @ ''>\<newline>'')"
    by (rule sublist_mid)
  moreover have "sublist state_name (''[FSM DEBUG]: Unhandled event <'' @ event_name
                                @ ''> in state <'' @ state_name @ ''>\<newline>'')"
    using sublist_mid [of state_name "''[FSM DEBUG]: Unhandled event <'' @ event_name
                                @ ''> in state <''" "''>\<newline>''"] by simp
  ultimately show ?thesis by blast
qed

lemma dispatch_unhandled_e_done:
  "dispatch basic_fsm (FSM_in ''s_init'') ''e_done''
     = Inr (FSM_in ''s_init'',
            [Cout (''[FSM DEBUG]: Unhandled event <e_done> in state <s_init>\<newline>'')])"
proof -
  have none: "FSM_Transition_explicit basic_fsm (''s_init'', ''e_done'') = None"
    and nowild: "FSM_Transition_partial basic_fsm ''e_done'' = None"
    and ename: "FSM_State_Name basic_fsm ''e_done'' = Some ''e_done''"
    and sname: "FSM_State_Name basic_fsm ''s_init'' = Some ''s_init''"
    by (simp_all add: basic_fsm_def)
  from dispatch_unhandled_named [OF basic_fsm_states(1) basic_fsm_events(4) none nowild
      ename sname]
  show ?thesis by simp
qed

text \<open>
  C3.  The claim is that for every state \<open>S\<close> and event \<open>E\<close> with no matching exact or
  wildcard rule, dispatch returns an FSM in state \<open>S\<close>, calls no hook and writes exactly
  one diagnostic with the names of the event and of the state.  It holds of every pair
  whose event is declared with \<open>NEW_EVENT\<close>.  It fails where the event is declared with
  \<open>NEW_CRITICAL_EVENT\<close>: the state \<open>s_idle\<close> is named and has neither an exact nor a
  generic rule for the critical event \<open>ce_halt\<close>, and the dispatch is rejected at compile
  time, so that no FSM is returned and no diagnostic is written.
\<close>

theorem dispatch_unhandled_critical_rejected:
  "derived_FSM_State halt_fsm ''s_idle'' \<and> derived_FSM_Event halt_fsm ''ce_halt''
   \<and> FSM_Transition_explicit halt_fsm (''s_idle'', ''ce_halt'') = None
   \<and> FSM_Transition_partial halt_fsm ''ce_halt'' = None
   \<and> dispatch halt_fsm (FSM_in ''s_idle'') ''ce_halt'' = Inl (Incomplete_type ''ce_halt'')
   \<and> (\<forall>text. dispatch halt_fsm (FSM_in ''s_idle'') ''ce_halt''
                 \<noteq> Inr (FSM_in ''s_idle'', [Cout text]))"
proof -
  have "derived_FSM_State halt_fsm ''s_idle''" and "derived_FSM_Event halt_fsm ''ce_halt''"
    and "FSM_Transition_explicit halt_fsm (''s_idle'', ''ce_halt'') = None"
    and "FSM_Transition_partial halt_fsm ''ce_halt'' = None"
    by (simp_all add: concept_defs halt_fsm_def basic_fsm_def)
  moreover have "dispatch halt_fsm (FSM_in ''s_idle'') ''ce_halt''
                   = Inl (Incomplete_type ''ce_halt'')"
    by (simp add: dispatch_def can_handle_event_def FSM_Transition_next_state_def
        print_unhandled_event_def concept_defs halt_fsm_def basic_fsm_def)
  ultimately show ?thesis by simp
qed

text \<open>
  C6.  The claim is that every registered event, ordinary or critical, carries a
  diagnostic name, so that the diagnostic of an unhandled pair names the event also when
  the event is critical.  \<open>NEW_EVENT\<close> specialises \<open>FSM_State_Name\<close>; \<open>NEW_CRITICAL_EVENT\<close>
  declares the struct only.  The critical events of the example have no name, and a
  critical event that some state does not handle (\<open>ce_halt\<close> in \<open>s_idle\<close>) makes the
  dispatch ill-formed instead of producing a diagnostic.
\<close>

theorem critical_event_unnamed:
  "FSM_State_Name basic_fsm ''e_done'' = Some ''e_done''
   \<and> derived_FSM_CriticalEvent basic_fsm ''ce_error''
   \<and> FSM_State_Name basic_fsm ''ce_error'' = None
   \<and> declarations [NEW_CRITICAL_EVENT ''halt'', NEW_TRANSITION ''s_tx'' ''ce_halt'' ''s_error'']
        basic_fsm = Inr halt_fsm
   \<and> derived_FSM_CriticalEvent halt_fsm ''ce_halt''
   \<and> FSM_State_Name halt_fsm ''ce_halt'' = None
   \<and> FSM_State_Name halt_fsm ''s_idle'' = Some ''s_idle''
   \<and> FSM_Transition_next_state halt_fsm ''s_idle'' ''ce_halt'' = None
   \<and> dispatch halt_fsm (FSM_in ''s_idle'') ''ce_halt'' = Inl (Incomplete_type ''ce_halt'')"
proof -
  have "FSM_State_Name basic_fsm ''e_done'' = Some ''e_done''"
    and "derived_FSM_CriticalEvent basic_fsm ''ce_error''"
    and "FSM_State_Name basic_fsm ''ce_error'' = None"
    by (simp_all add: concept_defs basic_fsm_def)
  moreover have "derived_FSM_CriticalEvent halt_fsm ''ce_halt''"
    and "FSM_State_Name halt_fsm ''ce_halt'' = None"
    and "FSM_State_Name halt_fsm ''s_idle'' = Some ''s_idle''"
    and "FSM_Transition_next_state halt_fsm ''s_idle'' ''ce_halt'' = None"
    by (simp_all add: FSM_Transition_next_state_def concept_defs halt_fsm_def basic_fsm_def)
  moreover have "dispatch halt_fsm (FSM_in ''s_idle'') ''ce_halt''
                   = Inl (Incomplete_type ''ce_halt'')"
    by (simp add: dispatch_def can_handle_event_def FSM_Transition_next_state_def
        print_unhandled_event_def concept_defs halt_fsm_def basic_fsm_def)
  ultimately show ?thesis
    using halt_fsm_compiles by blast
qed

section \<open>Tick hooks and determinism\<close>

text \<open>
  C8.  The tick hook of no state is called by dispatch or by the construction of an FSM,
  for any state and any event, whether or not the pair resolves to a transition: no
  effect list of the constructor or of dispatch contains a call of
  \<open>FSM_On_Tick<T>::exec()\<close>.
\<close>

theorem tick_hook_never_called:
  "(FSM_ctor tu S = Inr (fsm, effects) \<longrightarrow> On_Tick_exec T \<notin> set effects)
   \<and> (dispatch tu fsm0 E = Inr (fsm', effects') \<longrightarrow> On_Tick_exec T \<notin> set effects')"
proof
  show "FSM_ctor tu S = Inr (fsm, effects) \<longrightarrow> On_Tick_exec T \<notin> set effects"
    by (auto simp: FSM_ctor_def split: if_splits)
  show "dispatch tu fsm0 E = Inr (fsm', effects') \<longrightarrow> On_Tick_exec T \<notin> set effects'"
  proof
    assume "dispatch tu fsm0 E = Inr (fsm', effects')"
    from dispatch_effects [OF this] show "On_Tick_exec T \<notin> set effects'" by auto
  qed
qed

theorem tick_hook_never_called_witness:
  "FSM_ctor basic_fsm ''s_init'' = Inr (FSM_in ''s_init'', [On_Enter_exec ''s_init''])
   \<and> On_Tick_exec ''s_init'' \<notin> set [On_Enter_exec ''s_init'']
   \<and> dispatch basic_fsm (FSM_in ''s_init'') ''e_ready''
       = Inr (FSM_in ''s_idle'', [On_Exit_exec ''s_init'', On_Enter_exec ''s_idle''])
   \<and> On_Tick_exec ''s_init'' \<notin> set [On_Exit_exec ''s_init'', On_Enter_exec ''s_idle'']"
proof -
  have ctor: "FSM_ctor basic_fsm ''s_init'' = Inr (FSM_in ''s_init'', [On_Enter_exec ''s_init''])"
    using basic_fsm_states(1) by (simp add: FSM_ctor_def)
  have res: "FSM_Transition_next_state basic_fsm ''s_init'' ''e_ready'' = Some ''s_idle''"
    by (simp add: FSM_Transition_next_state_def concept_defs basic_fsm_def)
  have disp: "dispatch basic_fsm (FSM_in ''s_init'') ''e_ready''
       = Inr (FSM_in ''s_idle'', [On_Exit_exec ''s_init'', On_Enter_exec ''s_idle''])"
    using dispatch_resolved [OF res basic_fsm_states(2)] basic_fsm_critical(3) by simp
  from tick_hook_never_called [of basic_fsm "''s_init''" "FSM_in ''s_init''"
      "[On_Enter_exec ''s_init'']" "''s_init''" "FSM_in ''s_init''" "''e_ready''"
      "FSM_in ''s_idle''" "[On_Exit_exec ''s_init'', On_Enter_exec ''s_idle'']"]
  show ?thesis using ctor disp by simp
qed

text \<open>
  C9.  Dispatch is a deterministic function of the current state and the event: two
  calls of dispatch with the same state \<open>S\<close> and the same event \<open>E\<close> return the same
  result (an FSM in the same state, or the same rejection), whatever the state of the
  hosting program at either call (so whatever was dispatched before, and whatever
  counters the program keeps) and whatever the hooks do.  The same holds of any
  sequence of events dispatched one after the other from \<open>S\<close>.
\<close>

theorem dispatch_result_independent_of_world:
  "map_sum id fst (dispatch_in_world hooks1 tu (FSM_in S) E w1)
     = map_sum id fst (dispatch_in_world hooks2 tu (FSM_in S) E w2)
   \<and> map_sum id fst (dispatch_all_in_world hooks1 tu (FSM_in S) events w1)
     = map_sum id fst (dispatch_all_in_world hooks2 tu (FSM_in S) events w2)"
  by (simp add: dispatch_in_world_result dispatch_all_in_world_result)

theorem dispatch_result_independent_of_world_witness:
  "dispatch_in_world counting_actions basic_fsm (FSM_in ''s_init'') ''e_ready''
       \<lparr> cout = [], \<dots> = 0 \<rparr>
     = Inr (FSM_in ''s_idle'', \<lparr> cout = [], \<dots> = 1 \<rparr>)
   \<and> dispatch_in_world counting_actions basic_fsm (FSM_in ''s_init'') ''e_ready''
       \<lparr> cout = ''log'', \<dots> = 41 \<rparr>
     = Inr (FSM_in ''s_idle'', \<lparr> cout = ''log'', \<dots> = 42 \<rparr>)
   \<and> map_sum id fst (dispatch_in_world counting_actions basic_fsm (FSM_in ''s_init'')
         ''e_ready'' \<lparr> cout = [], \<dots> = 0 \<rparr>)
     = map_sum id fst (dispatch_in_world primary_hooks basic_fsm (FSM_in ''s_init'')
         ''e_ready'' \<lparr> cout = ''log'', \<dots> = 41 \<rparr>)"
proof -
  have a: "dispatch_in_world counting_actions basic_fsm (FSM_in ''s_init'') ''e_ready''
       \<lparr> cout = [], \<dots> = 0 \<rparr>
     = Inr (FSM_in ''s_idle'', \<lparr> cout = [], \<dots> = 1 \<rparr>)"
    by (simp add: dispatch_in_world_def FSM_ctor_in_world_def can_handle_event_def
        FSM_Transition_next_state_def concept_defs basic_fsm_def hook_defs
        counting_actions_def)
  have b: "dispatch_in_world counting_actions basic_fsm (FSM_in ''s_init'') ''e_ready''
       \<lparr> cout = ''log'', \<dots> = 41 \<rparr>
     = Inr (FSM_in ''s_idle'', \<lparr> cout = ''log'', \<dots> = 42 \<rparr>)"
    by (simp add: dispatch_in_world_def FSM_ctor_in_world_def can_handle_event_def
        FSM_Transition_next_state_def concept_defs basic_fsm_def hook_defs
        counting_actions_def)
  from dispatch_result_independent_of_world [of counting_actions basic_fsm "''s_init''"
      "''e_ready''" "\<lparr> cout = [], \<dots> = 0 \<rparr>" primary_hooks
      "\<lparr> cout = ''log'', \<dots> = 41 \<rparr>" "[]"]
  show ?thesis using a b by simp
qed

end
